theory Spec2Isabelle
  imports Main "HOL-Library.Sublist"
begin

section \<open>The serial session of the SMS gateway (serial.go, newest revision)\<close>

text \<open>
  The host side is the Go type \<open>ArduinoConnection\<close> with its methods; the peer side is
  the Arduino sketch \<open>sms_gateway.ino\<close>. Strings are byte strings (\<open>char list\<close>, one
  \<open>char\<close> per byte), as Go's \<open>string\<close> and Arduino's \<open>String\<close> are. Calls to
  \<open>log.Printf\<close> have no effect on the state and are left out. Every critical section
  (the code between a \<open>Lock\<close> and its \<open>Unlock\<close>) is one atomic step of the model.
\<close>

subsection \<open>Errors, panics and the transport\<close>

text \<open>
  Go errors are built with \<open>fmt.Errorf\<close>; each constructor is one format string of the
  source, and a \<open>%w\<close> argument is the wrapped error.
\<close>

datatype error =
    TransportError string  \<comment> \<open>an error value returned by the serial library\<close>
  | NotConnected  \<comment> \<open>not connected to Arduino\<close>
  | WakeupWriteFailed error  \<comment> \<open>failed to send wakeup command: %w\<close>
  | WakeFailed error  \<comment> \<open>failed to wake GSM: %w\<close>
  | GSMTimeout int  \<comment> \<open>GSM did not become ready within %v\<close>
  | GSMNotReady error  \<comment> \<open>GSM not ready: %w\<close>
  | WriteFailed error  \<comment> \<open>failed to write to serial port: %w\<close>

datatype 'a outcome = Panics string | Returns 'a

text \<open>
  A port is a handle number. The log records the calls made on the transport, in order.
\<close>

datatype port_op = PWrite nat string | PClose nat

text \<open>Calls handed to the collaborators: the persistence sink and the callback.\<close>

datatype sink_call =
    SaveReceivedSMS string string int
  | OnReceived string string int

record SerialCommand =
  Cmd :: string
  Number :: string
  Content :: string

record SerialResponse =
  Status :: string
  Message :: string
  Event :: string
  RNumber :: string
  RContent :: string
  Time :: string
  GSM :: string

text \<open>
  The struct \<open>ArduinoConnection\<close>. A channel of \<open>gsmWaiters\<close> is a number; \<open>chan_buf\<close>
  is the buffer of each channel (capacity 1) and \<open>chan_next\<close> the next number \<open>make\<close>
  hands out. \<open>stopChan_closed\<close> says whether \<open>stopChan\<close> has been closed and
  \<open>stop_closes\<close> counts the executed \<open>close(a.stopChan)\<close>. \<open>db_set\<close> and
  \<open>onReceived_set\<close> say whether the two fields are non-nil.
\<close>

record ArduinoConnection =
  port :: "nat option"
  port_log :: "port_op list"
  portName :: string
  connected :: bool
  stopChan_closed :: bool
  stop_closes :: nat
  stopOnce_done :: bool
  db_set :: bool
  onReceived_set :: bool
  sink_log :: "sink_call list"
  gsmReady :: bool
  gsmWaiters :: "nat list"
  chan_buf :: "nat \<Rightarrow> bool list"
  chan_next :: nat
  deviceMode :: string
  reconnecting :: bool
  shouldReconnect :: bool

definition deviceModeAuto :: string where
  "deviceModeAuto = ''auto''"

text \<open>
  The state \<open>NewArduinoConnectionWithMode\<close> builds: the struct literal of the source,
  every field it does not name at Go's zero value.
\<close>

definition NewArduinoConnectionWithMode :: "nat \<Rightarrow> string \<Rightarrow> bool \<Rightarrow> string \<Rightarrow> ArduinoConnection" where
  "NewArduinoConnectionWithMode h name db mode =
     \<lparr> port = Some h, port_log = [], portName = name, connected = True,
       stopChan_closed = False, stop_closes = 0, stopOnce_done = False,
       db_set = db, onReceived_set = False, sink_log = [],
       gsmReady = False, gsmWaiters = [], chan_buf = (\<lambda>_. []), chan_next = 0,
       deviceMode = mode, reconnecting = False, shouldReconnect = True \<rparr>"

text \<open>
  \<open>a.port.Write(data)\<close>: a nil port panics; otherwise the call is logged and the
  transport's answer \<open>werr\<close> (\<open>None\<close> for success) is returned.
\<close>

definition port_Write :: "ArduinoConnection \<Rightarrow> string \<Rightarrow> string option \<Rightarrow> (error option \<times> ArduinoConnection) outcome" where
  "port_Write a data werr =
     (case port a of
        None \<Rightarrow> Panics ''nil pointer dereference''
      | Some h \<Rightarrow> Returns (map_option TransportError werr, a\<lparr>port_log := port_log a @ [PWrite h data]\<rparr>))"

subsection \<open>The readiness gate\<close>

text \<open>
  \<open>select { case ch <- true: default: }\<close>: the value is delivered when the buffer of the
  channel (capacity 1) has room, and dropped otherwise.
\<close>

definition chan_send_nb :: "nat \<Rightarrow> (nat \<Rightarrow> bool list) \<Rightarrow> (nat \<Rightarrow> bool list)" where
  "chan_send_nb ch buf = (if length (buf ch) < 1 then buf(ch := buf ch @ [True]) else buf)"

text \<open>\<open>updateGSMState\<close>, the whole body under \<open>gsmMu\<close>.\<close>

definition updateGSMState :: "ArduinoConnection \<Rightarrow> string \<Rightarrow> ArduinoConnection" where
  "updateGSMState a state =
     (let wasReady = gsmReady a;
          a1 = a\<lparr>gsmReady := (state = ''connected'')\<rparr>
      in if gsmReady a1 = wasReady then a1
         else if gsmReady a1
           then a1\<lparr>chan_buf := fold chan_send_nb (gsmWaiters a1) (chan_buf a1), gsmWaiters := []\<rparr>
           else a1)"

definition IsGSMReady :: "ArduinoConnection \<Rightarrow> bool" where
  "IsGSMReady a = gsmReady a"

text \<open>
  \<open>WaitForGSM\<close> up to the \<open>Unlock\<close>: either the early \<open>return true\<close> (no channel), or a
  fresh channel appended to the waiters.
\<close>

definition WaitForGSM_register :: "ArduinoConnection \<Rightarrow> nat option \<times> ArduinoConnection" where
  "WaitForGSM_register a =
     (if gsmReady a then (None, a)
      else let ch = chan_next a
           in (Some ch, a\<lparr>chan_next := Suc ch, chan_buf := (chan_buf a)(ch := []),
                           gsmWaiters := gsmWaiters a @ [ch]\<rparr>))"

text \<open>
  The \<open>select\<close> of \<open>WaitForGSM\<close> once the timer has fired or the channel has a value:
  a buffered value is received (true), an empty buffer means \<open>time.After\<close> won (false).
\<close>

definition WaitForGSM_select :: "nat \<Rightarrow> ArduinoConnection \<Rightarrow> bool \<times> ArduinoConnection" where
  "WaitForGSM_select ch a =
     (case chan_buf a ch of
        [] \<Rightarrow> (False, a)
      | v # vs \<Rightarrow> (True, a\<lparr>chan_buf := (chan_buf a)(ch := vs)\<rparr>))"

subsection \<open>Dispatch of a decoded frame\<close>

text \<open>\<open>handleReceivedSMS\<close>; \<open>now\<close> is the value of \<open>time.Now()\<close>.\<close>

definition handleReceivedSMS :: "ArduinoConnection \<Rightarrow> SerialResponse \<Rightarrow> int \<Rightarrow> ArduinoConnection" where
  "handleReceivedSMS a response now =
     (let timestamp = now;
          a1 = (if db_set a
                then a\<lparr>sink_log := sink_log a @ [SaveReceivedSMS (RNumber response) (RContent response) timestamp]\<rparr>
                else a)
      in if onReceived_set a1
         then a1\<lparr>sink_log := sink_log a1 @ [OnReceived (RNumber response) (RContent response) timestamp]\<rparr>
         else a1)"

text \<open>
  \<open>handleResponse\<close>; \<open>decoded\<close> is what \<open>json.Unmarshal\<close> made of the line, \<open>None\<close> when
  it returned an error. The cases of the \<open>switch\<close> other than \<open>received\<close> only log.
\<close>

definition handleResponse :: "ArduinoConnection \<Rightarrow> SerialResponse option \<Rightarrow> int \<Rightarrow> ArduinoConnection" where
  "handleResponse a decoded now =
     (case decoded of
        None \<Rightarrow> a
      | Some response \<Rightarrow>
          (let a1 = (if GSM response \<noteq> [] then updateGSMState a (GSM response) else a)
           in if Event response = ''gsm_state'' then a1
              else if Event response = ''received'' then handleReceivedSMS a1 response now
              else a1))"

text \<open>
  The frames the read loop dispatches while a caller is blocked: each with the time of
  its dispatch.
\<close>

definition dispatch_all :: "(SerialResponse option \<times> int) list \<Rightarrow> ArduinoConnection \<Rightarrow> ArduinoConnection" where
  "dispatch_all frames a = fold (\<lambda>(decoded, now) s. handleResponse s decoded now) frames a"

text \<open>
  \<open>WaitForGSM(timeout)\<close>. \<open>window\<close> is what the read loop dispatches between the
  registration of the waiter and the expiry of \<open>timeout\<close>; it is not looked at when the
  call returns before blocking.
\<close>

definition WaitForGSM :: "ArduinoConnection \<Rightarrow> int \<Rightarrow> (SerialResponse option \<times> int) list \<Rightarrow> bool \<times> ArduinoConnection" where
  "WaitForGSM a timeout window =
     (case WaitForGSM_register a of
        (None, a1) \<Rightarrow> (True, a1)
      | (Some ch, a1) \<Rightarrow> WaitForGSM_select ch (dispatch_all window a1))"

section \<open>Theorems\<close>

text \<open>
  C3. For every timeout \<open>t \<ge> 0\<close> (and whatever arrives later), \<open>WaitForGSM(t)\<close> called while
  the readiness flag is true returns true from its locked section: no channel is made, no
  waiter is registered, the state is unchanged and nothing of the window is consumed.
\<close>

theorem C3_wait_when_ready:
  assumes "gsmReady a" and "0 \<le> t"
  shows "WaitForGSM a t window = (True, a) \<and> WaitForGSM_register a = (None, a)"
  using assms by (simp add: WaitForGSM_def WaitForGSM_register_def)

theorem C3_wait_when_ready_witness:
  "gsmReady ((NewArduinoConnectionWithMode 0 ''/dev/ttyACM0'' True ''auto'')\<lparr>gsmReady := True\<rparr>) \<and>
   (0::int) \<le> 30000000000 \<and>
   WaitForGSM ((NewArduinoConnectionWithMode 0 ''/dev/ttyACM0'' True ''auto'')\<lparr>gsmReady := True\<rparr>) 30000000000 []
     = (True, (NewArduinoConnectionWithMode 0 ''/dev/ttyACM0'' True ''auto'')\<lparr>gsmReady := True\<rparr>)"
  using C3_wait_when_ready [of "(NewArduinoConnectionWithMode 0 ''/dev/ttyACM0'' True ''auto'')\<lparr>gsmReady := True\<rparr>" 30000000000 "[]"]
  by simp

text \<open>
  C10. For every frame handed to \<open>handleReceivedSMS\<close>, every call it makes on the
  persistence sink and on the callback carries the host's time \<open>now\<close>; the frame's own
  \<open>timestamp\<close> field (\<open>Time\<close>) has no influence on the calls.
\<close>

theorem C10_timestamp_is_now:
  assumes "Event response = ''received''"
  shows "sink_log (handleResponse a (Some response) now) =
           sink_log a
           @ (if db_set a then [SaveReceivedSMS (RNumber response) (RContent response) now] else [])
           @ (if onReceived_set a then [OnReceived (RNumber response) (RContent response) now] else [])
         \<and> handleResponse a (Some (response\<lparr>Time := t\<rparr>)) now = handleResponse a (Some response) now"
  using assms
  by (simp add: handleResponse_def handleReceivedSMS_def updateGSMState_def Let_def)

theorem C10_timestamp_is_now_witness:
  "Event \<lparr>Status = [], Message = [], Event = ''received'', RNumber = ''+15550001111'',
          RContent = ''hi'', Time = ''0:0:42'', GSM = ''connected''\<rparr> = ''received'' \<and>
   sink_log (handleResponse (NewArduinoConnectionWithMode 0 ''/dev/ttyACM0'' True ''auto'')
      (Some \<lparr>Status = [], Message = [], Event = ''received'', RNumber = ''+15550001111'',
          RContent = ''hi'', Time = ''0:0:42'', GSM = ''connected''\<rparr>) 1700000000)
    = [SaveReceivedSMS ''+15550001111'' ''hi'' 1700000000]"
  using C10_timestamp_is_now [of "\<lparr>Status = [], Message = [], Event = ''received'', RNumber = ''+15550001111'',
          RContent = ''hi'', Time = ''0:0:42'', GSM = ''connected''\<rparr>"
        "NewArduinoConnectionWithMode 0 ''/dev/ttyACM0'' True ''auto''" 1700000000 "''0:0:42''"]
  by (simp add: NewArduinoConnectionWithMode_def)

end
